theory Spec2Isabelle
  imports Complex_Main
begin

section \<open>Python values used by app.py\<close>

text \<open>
  Strings are lists of characters. \<open>isspace\<close> is the ASCII part of Python's
  \<open>str.isspace\<close>: tab, line feed, vertical tab, form feed, carriage return, the four
  separators 0x1C..0x1F and the space. \<open>strip\<close> is \<open>str.strip()\<close> with no argument.
\<close>

definition isspace :: "char \<Rightarrow> bool" where
  "isspace c = (c \<in> set [CHR 0x09, CHR 0x0A, CHR 0x0B, CHR 0x0C, CHR 0x0D,
                          CHR 0x1C, CHR 0x1D, CHR 0x1E, CHR 0x1F, CHR 0x20])"

definition strip :: "string \<Rightarrow> string" where
  "strip s = rev (dropWhile isspace (rev (dropWhile isspace s)))"

text \<open>\<open>sep.join(xs)\<close>.\<close>

fun join :: "string \<Rightarrow> string list \<Rightarrow> string" where
  "join sep [] = []"
| "join sep [x] = x"
| "join sep (x # y # ys) = x @ sep @ join sep (y # ys)"

text \<open>\<open>s.split(c)\<close> for a separator of one character: never the empty list.\<close>

fun split :: "char \<Rightarrow> string \<Rightarrow> string list" where
  "split sep [] = [[]]"
| "split sep (c # cs) =
     (if c = sep then [] # split sep cs
      else (case split sep cs of
              [] \<Rightarrow> [[c]]
            | w # ws \<Rightarrow> (c # w) # ws))"

text \<open>
  \<open>s.replace("  ", " ")\<close>: one pass from the left over non-overlapping occurrences
  of two spaces; the text produced is not scanned again.
\<close>

fun replace_double_space :: "string \<Rightarrow> string" where
  "replace_double_space (a # b # cs) =
     (if a = CHR '' '' \<and> b = CHR '' '' then CHR '' '' # replace_double_space cs
      else a # replace_double_space (b # cs))"
| "replace_double_space [a] = [a]"
| "replace_double_space [] = []"

text \<open>\<open>s.endswith(suffix)\<close>.\<close>

definition endswith :: "string \<Rightarrow> string \<Rightarrow> bool" where
  "endswith s suffix =
     (length suffix \<le> length s \<and> drop (length s - length suffix) s = suffix)"

text \<open>\<open>needle in s\<close> for two strings.\<close>

fun contains :: "string \<Rightarrow> string \<Rightarrow> bool" where
  "contains [] needle = (needle = [])"
| "contains (c # cs) needle =
     (take (length needle) (c # cs) = needle \<or> contains cs needle)"

text \<open>\<open>str(n)\<close> for a natural number, as an f-string prints it.\<close>

definition digit :: "nat \<Rightarrow> char" where
  "digit d = ''0123456789'' ! d"

fun str_nat :: "nat \<Rightarrow> string" where
  "str_nat n = (if n < 10 then [digit n] else str_nat (n div 10) @ [digit (n mod 10)])"

declare str_nat.simps [simp del]

text \<open>
  Exceptions, by the classes the handlers of app.py tell apart. \<open>RequestException\<close>
  stands for \<open>requests.exceptions.RequestException\<close> and its subclasses
  (ConnectionError, Timeout, HTTPError); \<open>RequestsJSONDecodeError\<close> for
  \<open>requests.exceptions.JSONDecodeError\<close>, which is both a RequestException and a
  ValueError; \<open>ValueError\<close> for the built-in class and its other subclasses. The
  strings are \<open>str(e)\<close>; for a KeyError that is the missing key as \<open>repr\<close> prints it. Only subclasses of
  \<open>Exception\<close> are modelled. IndexError, TypeError and AttributeError are raised by
  the interpreter itself; their texts vary with its version and are left empty.
\<close>

datatype exn =
    RequestException string
  | RequestsJSONDecodeError string
  | ValueError string
  | KeyError string
  | IndexError
  | TypeError
  | AttributeError
  | OtherException string

fun is_RequestException :: "exn \<Rightarrow> bool" where
  "is_RequestException (RequestException m) = True"
| "is_RequestException (RequestsJSONDecodeError m) = True"
| "is_RequestException e = False"

fun is_ValueError :: "exn \<Rightarrow> bool" where
  "is_ValueError (ValueError m) = True"
| "is_ValueError (RequestsJSONDecodeError m) = True"
| "is_ValueError e = False"

fun str_exn :: "exn \<Rightarrow> string" where
  "str_exn (RequestException m) = m"
| "str_exn (RequestsJSONDecodeError m) = m"
| "str_exn (ValueError m) = m"
| "str_exn (KeyError k) = k"
| "str_exn IndexError = []"
| "str_exn TypeError = []"
| "str_exn AttributeError = []"
| "str_exn (OtherException m) = m"

text \<open>
  JSON values as \<open>response.json()\<close> returns them and as \<open>json=\<close> sends them:
  \<open>None\<close>, bool, int, float (a decimal literal, kept exact), str, list, and dict
  as an association list read with \<open>map_of\<close>.
\<close>

datatype json =
    JNull
  | JBool bool
  | JInt int
  | JFloat rat
  | JStr string
  | JArr "json list"
  | JObj "(string \<times> json) list"

text \<open>
  What the program does that the caller can observe besides the value returned: a line
  printed, an HTTP POST (url, json body, timeout), a query of the collection
  (query texts, n_results, include).
\<close>

datatype event =
    Print string
  | Post string json nat
  | Query "string list" nat "string list"

section \<open>TextExtractor: extract_text_from_pdf\<close>

text \<open>
  A page is its \<open>extract_text\<close> method, taking \<open>x_tolerance\<close> and \<open>y_tolerance\<close>:
  it raises, or returns \<open>None\<close> or a string. A file system is what
  \<open>Path("documents").exists()\<close> answers, the names \<open>glob("*.pdf")\<close> lists, and for
  each path what \<open>pdfplumber.open\<close> with \<open>.pages\<close> gives: a fault or the pages.
\<close>

type_synonym page = "nat \<Rightarrow> nat \<Rightarrow> exn + string option"

record fs =
  docs_dir_exists :: bool
  glob_pdf :: "string list"
  pdf_open :: "string \<Rightarrow> exn + page list"

definition NL :: char where
  "NL = CHR 0x0A"

text \<open>Lines 25 and 26: the two rewrites of a page's text.\<close>

definition clean_page :: "string \<Rightarrow> string" where
  "clean_page text = join [NL] (map strip (split NL (replace_double_space text)))"

definition no_text_marker :: "nat \<Rightarrow> string" where
  "no_text_marker page_num = ''[No text found on page '' @ str_nat page_num @ '']''"

text \<open>
  The loop of lines 22 to 29 over \<open>enumerate(pdf.pages, 1)\<close>; \<open>if text:\<close> is false
  for \<open>None\<close> and for the empty string.
\<close>

fun extract_pages :: "nat \<Rightarrow> page list \<Rightarrow> string list \<Rightarrow> exn + string list" where
  "extract_pages page_num [] text_content = Inr text_content"
| "extract_pages page_num (page # pages) text_content =
     (case page 3 3 of
        Inl e \<Rightarrow> Inl e
      | Inr None \<Rightarrow>
          extract_pages (Suc page_num) pages (text_content @ [no_text_marker page_num])
      | Inr (Some text) \<Rightarrow>
          if text \<noteq> []
          then extract_pages (Suc page_num) pages (text_content @ [clean_page text])
          else extract_pages (Suc page_num) pages (text_content @ [no_text_marker page_num]))"

text \<open>The body of the \<open>try\<close>, lines 21 to 30.\<close>

definition extract_try :: "fs \<Rightarrow> string \<Rightarrow> exn + string" where
  "extract_try f pdf_path =
     (case pdf_open f pdf_path of
        Inl e \<Rightarrow> Inl e
      | Inr pages \<Rightarrow>
          (case extract_pages 1 pages [] of
             Inl e \<Rightarrow> Inl e
           | Inr text_content \<Rightarrow> Inr (join '' '' text_content)))"

text \<open>
  A call of a Python function raises (\<open>Inl\<close>) or returns (\<open>Inr\<close>), and leaves its
  events behind. \<open>except Exception\<close> catches every fault of the body.
\<close>

definition extract_text_from_pdf :: "fs \<Rightarrow> string \<Rightarrow> (exn + string) \<times> event list" where
  "extract_text_from_pdf f pdf_path =
     (case extract_try f pdf_path of
        Inr text \<Rightarrow> (Inr text, [])
      | Inl e \<Rightarrow>
          (Inr [], [Print (''Error extracting text from '' @ pdf_path @ '': '' @ str_exn e)]))"

section \<open>CorpusBuilder: process_documents\<close>






section \<open>VectorIndex: store_documents\<close>








section \<open>VectorIndex: retrieve_documents\<close>

text \<open>
  Sequencing of calls that may raise: the first fault ends the computation.
\<close>

definition then_do :: "exn + 'a \<Rightarrow> ('a \<Rightarrow> exn + 'b) \<Rightarrow> exn + 'b" where
  "then_do m k = (case m of Inl e \<Rightarrow> Inl e | Inr x \<Rightarrow> k x)"

text \<open>
  What \<open>collection.query\<close> returns: the keys \<open>documents\<close> and \<open>metadatas\<close> of the
  result, each \<open>None\<close> or one list per query text. A metadata is a dict from strings
  to strings. The index with its embedding function is the function
  \<open>collection_query\<close> of the environment, from query texts, \<open>n_results\<close> and
  \<open>include\<close> to a fault or a result; \<open>requests_post\<close> is \<open>requests.post\<close> from url,
  json body and timeout to a fault or a response.
\<close>

record query_result =
  qr_documents :: "string list list option"
  qr_metadatas :: "(string \<times> string) list list list option"

text \<open>
  A response: its \<open>status_code\<close>, what \<open>response.json()\<close> does, and the text of the
  HTTPError that \<open>raise_for_status\<close> builds for it.
\<close>

record response =
  status_code :: int
  json_result :: "exn + json"
  http_error_text :: string

record env =
  collection_query :: "string list \<Rightarrow> nat \<Rightarrow> string list \<Rightarrow> exn + query_result"
  requests_post :: "string \<Rightarrow> json \<Rightarrow> nat \<Rightarrow> exn + response"


definition quoted :: "string \<Rightarrow> string" where
  "quoted k = [CHR 0x27] @ k @ [CHR 0x27]"



section \<open>GenerationClient: check_llama_server and query_llama\<close>

definition native_url :: string where
  "native_url = ''http://localhost:8000/completion''"

definition openai_url :: string where
  "openai_url = ''http://localhost:8000/v1/completions''"

definition endpoints :: "string list" where
  "endpoints = [native_url, openai_url]"

definition probe_payload :: json where
  "probe_payload = JObj [(''prompt'', JStr ''test''), (''max_tokens'', JInt 1)]"

text \<open>
  The loop of lines 124 to 134, inside the outer \<open>try\<close>: a RequestException goes on
  to the next url, any other fault leaves the loop.
\<close>

fun probe :: "env \<Rightarrow> string list \<Rightarrow> (exn + string option) \<times> event list" where
  "probe e [] = (Inr None, [])"
| "probe e (url # urls) =
     (case requests_post e url probe_payload 5 of
        Inr response \<Rightarrow>
          if status_code response = 200 then (Inr (Some url), [Post url probe_payload 5])
          else (case probe e urls of (r, tr) \<Rightarrow> (r, Post url probe_payload 5 # tr))
      | Inl x \<Rightarrow>
          if is_RequestException x
          then (case probe e urls of (r, tr) \<Rightarrow> (r, Post url probe_payload 5 # tr))
          else (Inl x, [Post url probe_payload 5]))"

text \<open>The outer handler, \<open>except Exception: return None\<close>.\<close>

definition check_llama_server :: "env \<Rightarrow> (exn + string option) \<times> event list" where
  "check_llama_server e =
     (case probe e endpoints of
        (Inl x, tr) \<Rightarrow> (Inr None, tr)
      | (Inr r, tr) \<Rightarrow> (Inr r, tr))"

text \<open>Python on a value that \<open>response.json()\<close> returned.\<close>

text \<open>\<open>result.get(k, default)\<close>: only a dict has \<open>get\<close>.\<close>

fun dict_get :: "json \<Rightarrow> string \<Rightarrow> json \<Rightarrow> exn + json" where
  "dict_get (JObj d) k dflt = Inr (case map_of d k of None \<Rightarrow> dflt | Some v \<Rightarrow> v)"
| "dict_get j k dflt = Inl AttributeError"

text \<open>\<open>v.strip()\<close>: only a str has \<open>strip\<close>.\<close>

fun str_strip :: "json \<Rightarrow> exn + string" where
  "str_strip (JStr s) = Inr (strip s)"
| "str_strip j = Inl AttributeError"

text \<open>
  \<open>k in result\<close> for a string \<open>k\<close>: a key of a dict, an element of a list, a substring
  of a str; \<open>None\<close> and numbers are not iterable.
\<close>

fun json_contains :: "string \<Rightarrow> json \<Rightarrow> exn + bool" where
  "json_contains k (JObj d) = Inr (map_of d k \<noteq> None)"
| "json_contains k (JArr xs) = Inr (JStr k \<in> set xs)"
| "json_contains k (JStr s) = Inr (contains s k)"
| "json_contains k j = Inl TypeError"

text \<open>\<open>v[k]\<close> for a string \<open>k\<close>.\<close>

fun getitem_str :: "json \<Rightarrow> string \<Rightarrow> exn + json" where
  "getitem_str (JObj d) k =
     (case map_of d k of None \<Rightarrow> Inl (KeyError (quoted k)) | Some v \<Rightarrow> Inr v)"
| "getitem_str j k = Inl TypeError"

text \<open>\<open>len(v)\<close>.\<close>

fun json_len :: "json \<Rightarrow> exn + nat" where
  "json_len (JArr xs) = Inr (length xs)"
| "json_len (JObj d) = Inr (length d)"
| "json_len (JStr s) = Inr (length s)"
| "json_len j = Inl TypeError"

text \<open>\<open>v[0]\<close>: a dict read from JSON has string keys only, so the key 0 is missing.\<close>

fun getitem_0 :: "json \<Rightarrow> exn + json" where
  "getitem_0 (JArr []) = Inl IndexError"
| "getitem_0 (JArr (x # xs)) = Inr x"
| "getitem_0 (JStr []) = Inl IndexError"
| "getitem_0 (JStr (c # cs)) = Inr (JStr [c])"
| "getitem_0 (JObj d) = Inl (KeyError ''0'')"
| "getitem_0 j = Inl TypeError"

text \<open>\<open>response.raise_for_status()\<close>: an HTTPError, which is a RequestException.\<close>

definition raise_for_status :: "response \<Rightarrow> exn + unit" where
  "raise_for_status r =
     (if 400 \<le> status_code r \<and> status_code r < 600
      then Inl (RequestException (http_error_text r)) else Inr ())"

definition no_server_message :: string where
  "no_server_message = ''Error: Could not connect to llama.cpp server. Please verify the server is running and the endpoint is correct. Try starting the server with: ./server --port 8000''"

definition unexpected_format_message :: string where
  "unexpected_format_message = ''Error: Unexpected response format from llama.cpp server''"

text \<open>Lines 147 and 148.\<close>

definition full_prompt_of :: "string \<Rightarrow> string \<Rightarrow> string list \<Rightarrow> string" where
  "full_prompt_of prompt context sources =
     (let sources_text = [NL] @ ''Sources: '' @ join '', '' sources
      in ''Context: '' @ context @ [NL, NL] @ ''Question: '' @ prompt @ [NL, NL]
         @ ''Based on the provided context, please answer the question:'' @ sources_text
         @ [NL] @ ''Answer:'')"

text \<open>Lines 150 to 166: the body for the endpoint.\<close>

definition payload_of :: "string \<Rightarrow> string \<Rightarrow> json" where
  "payload_of endpoint full_prompt =
     (if endswith endpoint ''/completion''
      then JObj [(''prompt'', JStr full_prompt), (''n_predict'', JInt 500),
                 (''temperature'', JFloat (7 / 10)), (''top_p'', JFloat (95 / 100)),
                 (''stop'', JArr [JStr [NL, NL]])]
      else JObj [(''prompt'', JStr full_prompt), (''max_tokens'', JInt 500),
                 (''temperature'', JFloat (7 / 10)), (''top_p'', JFloat (95 / 100)),
                 (''stop'', JArr [JStr [NL, NL]])])"

text \<open>Lines 177 to 180, the OpenAI format; \<open>and\<close> evaluates its right side only
  when the left is true.\<close>

definition parse_openai :: "json \<Rightarrow> exn + string" where
  "parse_openai result =
     then_do (json_contains ''choices'' result) (\<lambda>has.
       then_do (if has
                then then_do (getitem_str result ''choices'') (\<lambda>cs.
                       then_do (json_len cs) (\<lambda>n. Inr (n > 0)))
                else Inr False) (\<lambda>ok.
         if ok
         then then_do (getitem_str result ''choices'') (\<lambda>cs.
                then_do (getitem_0 cs) (\<lambda>c.
                  then_do (getitem_str c ''text'') str_strip))
         else Inr unexpected_format_message))"

text \<open>The body of the \<open>try\<close>, lines 169 to 180.\<close>

definition llama_try :: "env \<Rightarrow> string \<Rightarrow> json \<Rightarrow> exn + string" where
  "llama_try e endpoint payload =
     then_do (requests_post e endpoint payload 30) (\<lambda>response.
       then_do (raise_for_status response) (\<lambda>u.
         then_do (json_result response) (\<lambda>result.
           if endswith endpoint ''/completion''
           then then_do (dict_get result ''content'' (JStr [])) str_strip
           else parse_openai result)))"

text \<open>The two handlers, in the order of lines 181 and 183.\<close>

definition llama_handlers :: "exn + string \<Rightarrow> exn + string" where
  "llama_handlers r =
     (case r of
        Inr s \<Rightarrow> Inr s
      | Inl x \<Rightarrow>
          if is_RequestException x then Inr (''Error querying llama.cpp server: '' @ str_exn x)
          else if is_ValueError x then Inr (''Error parsing server response: '' @ str_exn x)
          else Inl x)"

text \<open>\<open>if not endpoint\<close> holds for \<open>None\<close> and for the empty string.\<close>

definition query_llama ::
  "env \<Rightarrow> string \<Rightarrow> string \<Rightarrow> string list \<Rightarrow> (exn + string) \<times> event list" where
  "query_llama e prompt context sources =
     (case check_llama_server e of
        (Inl x, tr) \<Rightarrow> (Inl x, tr)
      | (Inr None, tr) \<Rightarrow> (Inr no_server_message, tr)
      | (Inr (Some endpoint), tr) \<Rightarrow>
          if endpoint = [] then (Inr no_server_message, tr)
          else (let payload = payload_of endpoint (full_prompt_of prompt context sources)
                in (llama_handlers (llama_try e endpoint payload),
                    tr @ [Post endpoint payload 30])))"

section \<open>RagPipeline: rag_pipeline\<close>


section \<open>Definitions used to state the properties\<close>

subsection \<open>Text extraction\<close>






text \<open>A page whose \<open>extract_text\<close> returns, with or without text.\<close>

definition returns :: "page \<Rightarrow> bool" where
  "returns page = (case page 3 3 of Inl e \<Rightarrow> False | Inr t \<Rightarrow> True)"

text \<open>Concrete inputs: a page with a fixed outcome, a directory holding one file.\<close>

definition page_of :: "exn + string option \<Rightarrow> page" where
  "page_of r = (\<lambda>x_tolerance y_tolerance. r)"

definition single_pdf :: "exn + page list \<Rightarrow> fs" where
  "single_pdf outcome =
     \<lparr>docs_dir_exists = True, glob_pdf = [''a.pdf''], pdf_open = (\<lambda>path. outcome)\<rparr>"

subsection \<open>Corpus and index\<close>







subsection \<open>Endpoint discovery and generation\<close>

text \<open>
  What the probe of a url does: it answers 200; it is down (a RequestException, or a
  status other than 200); it faults (raises anything else).
\<close>

definition answers_200 :: "env \<Rightarrow> string \<Rightarrow> bool" where
  "answers_200 e url =
     (case requests_post e url probe_payload 5 of
        Inr r \<Rightarrow> status_code r = 200
      | Inl x \<Rightarrow> False)"

definition is_down :: "env \<Rightarrow> string \<Rightarrow> bool" where
  "is_down e url =
     (case requests_post e url probe_payload 5 of
        Inr r \<Rightarrow> status_code r \<noteq> 200
      | Inl x \<Rightarrow> is_RequestException x)"

definition probe_faults :: "env \<Rightarrow> string \<Rightarrow> bool" where
  "probe_faults e url =
     (case requests_post e url probe_payload 5 of
        Inr r \<Rightarrow> False
      | Inl x \<Rightarrow> \<not> is_RequestException x)"

text \<open>Discovery in the words of the specification: the first candidate answering 200.\<close>

definition first_answering_200 :: "env \<Rightarrow> string list \<Rightarrow> string option" where
  "first_answering_200 e urls = find (answers_200 e) urls"



text \<open>
  Concrete inputs. \<open>backend\<close>: the two candidates with fixed outcomes. \<open>server\<close>: one
  url is up, answers every probe with 200 and every other request with \<open>answer\<close>;
  nothing listens elsewhere. \<open>indexed\<close>: an environment whose collection answers every
  query with \<open>r\<close>.
\<close>

definition ok_response :: "json \<Rightarrow> response" where
  "ok_response body = \<lparr>status_code = 200, json_result = Inr body, http_error_text = []\<rparr>"

definition backend :: "exn + response \<Rightarrow> exn + response \<Rightarrow> env" where
  "backend native openai =
     \<lparr>collection_query = (\<lambda>texts n include. Inl (OtherException [])),
      requests_post = (\<lambda>url body timeout. if url = native_url then native else openai)\<rparr>"

definition server :: "string \<Rightarrow> exn + response \<Rightarrow> env" where
  "server up answer =
     \<lparr>collection_query = (\<lambda>texts n include. Inl (OtherException [])),
      requests_post = (\<lambda>url body timeout.
         if url = up
         then (if body = probe_payload then Inr (ok_response JNull) else answer)
         else Inl (RequestException ''Connection refused''))\<rparr>"


definition refused :: "exn + response" where
  "refused = Inl (RequestException ''Connection refused'')"

definition answering :: "exn + response" where
  "answering = Inr (ok_response JNull)"


definition faulting :: "exn + response" where
  "faulting = Inl (OtherException ''fault'')"

definition service_unavailable :: response where
  "service_unavailable =
     \<lparr>status_code = 503, json_result = Inr JNull,
      http_error_text = ''503 Server Error: Service Unavailable''\<rparr>"

definition unavailable :: "exn + response" where
  "unavailable = Inr service_unavailable"




section \<open>Properties\<close>


subsection \<open>Text extraction\<close>


lemma extract_pages_raise:
  "list_all returns good \<Longrightarrow> bad 3 3 = Inl x \<Longrightarrow>
   extract_pages k (good @ bad # rest) acc = Inl x"
proof (induction good arbitrary: k acc)
  case Nil
  then show ?case by simp
next
  case (Cons pg good)
  from Cons.prems obtain t where t: "pg 3 3 = Inr t"
    by (auto simp: returns_def split: sum.splits)
  from Cons.prems have "list_all returns good" by simp
  from Cons.IH [OF this Cons.prems(2)] t show ?case
    by (cases t) simp_all
qed











subsection \<open>Corpus\<close>




text \<open>
  C9. \<open>extract_text_from_pdf\<close> returns for every file system and path. When the file does
  not open, and when a page raises after pages that returned, the value is the empty
  string and the one line printed names the path and the fault.
\<close>

theorem extract_text_from_pdf_never_raises:
  "(\<exists>t out. extract_text_from_pdf f p = (Inr t, out))
   \<and> (pdf_open f p = Inl x \<longrightarrow>
        extract_text_from_pdf f p =
          (Inr [], [Print (''Error extracting text from '' @ p @ '': '' @ str_exn x)]))
   \<and> (pdf_open f p = Inr (good @ bad # rest) \<and> list_all returns good \<and> bad 3 3 = Inl y \<longrightarrow>
        extract_text_from_pdf f p =
          (Inr [], [Print (''Error extracting text from '' @ p @ '': '' @ str_exn y)]))"
proof (intro conjI impI)
  show "\<exists>t out. extract_text_from_pdf f p = (Inr t, out)"
    by (simp add: extract_text_from_pdf_def split: sum.splits)
next
  assume "pdf_open f p = Inl x"
  then show "extract_text_from_pdf f p =
      (Inr [], [Print (''Error extracting text from '' @ p @ '': '' @ str_exn x)])"
    by (simp add: extract_text_from_pdf_def extract_try_def)
next
  assume a: "pdf_open f p = Inr (good @ bad # rest) \<and> list_all returns good \<and> bad 3 3 = Inl y"
  then have "extract_pages 1 (good @ bad # rest) [] = Inl y"
    by (simp add: extract_pages_raise)
  with a show "extract_text_from_pdf f p =
      (Inr [], [Print (''Error extracting text from '' @ p @ '': '' @ str_exn y)])"
    by (simp add: extract_text_from_pdf_def extract_try_def)
qed

theorem extract_text_from_pdf_never_raises_witness:
  "extract_text_from_pdf (single_pdf (Inl (OtherException ''No /Root object! - Is this really a PDF?'')))
      ''documents/a.pdf''
     = (Inr [], [Print ''Error extracting text from documents/a.pdf: No /Root object! - Is this really a PDF?''])
   \<and> extract_text_from_pdf
        (single_pdf (Inr [page_of (Inr (Some ''ok'')), page_of (Inl (OtherException ''bad page''))]))
        ''documents/a.pdf''
     = (Inr [], [Print ''Error extracting text from documents/a.pdf: bad page''])"
proof -
  let ?f1 = "single_pdf (Inl (OtherException ''No /Root object! - Is this really a PDF?''))"
  let ?good = "[page_of (Inr (Some ''ok''))]"
  let ?bad = "page_of (Inl (OtherException ''bad page''))"
  let ?f2 = "single_pdf (Inr (?good @ ?bad # []))"
  have h1: "pdf_open ?f1 ''documents/a.pdf'' = Inl (OtherException ''No /Root object! - Is this really a PDF?'')"
    by (simp add: single_pdf_def)
  have h2: "pdf_open ?f2 ''documents/a.pdf'' = Inr (?good @ ?bad # []) \<and> list_all returns ?good
      \<and> ?bad 3 3 = Inl (OtherException ''bad page'')"
    by (simp add: single_pdf_def returns_def page_of_def)
  from extract_text_from_pdf_never_raises [of ?f1 "''documents/a.pdf''"
      "OtherException ''No /Root object! - Is this really a PDF?''", THEN conjunct2, THEN conjunct1] h1
  have r1: "extract_text_from_pdf ?f1 ''documents/a.pdf''
     = (Inr [], [Print ''Error extracting text from documents/a.pdf: No /Root object! - Is this really a PDF?''])"
    by simp
  from extract_text_from_pdf_never_raises [of ?f2 "''documents/a.pdf''" _ ?good ?bad "[]"
      "OtherException ''bad page''", THEN conjunct2, THEN conjunct2] h2
  have r2: "extract_text_from_pdf ?f2 ''documents/a.pdf''
     = (Inr [], [Print ''Error extracting text from documents/a.pdf: bad page''])"
    by simp
  from r1 r2 show ?thesis by simp
qed



subsection \<open>Index\<close>














subsection \<open>Endpoint discovery\<close>

lemma probe_step_up:
  "answers_200 e url \<Longrightarrow> probe e (url # urls) = (Inr (Some url), [Post url probe_payload 5])"
  by (auto simp: answers_200_def split: sum.splits)

lemma probe_step_down:
  "is_down e url \<Longrightarrow>
   probe e (url # urls) = (fst (probe e urls), Post url probe_payload 5 # snd (probe e urls))"
  by (auto simp: is_down_def split: sum.splits prod.splits)

lemma probe_step_fault:
  "probe_faults e url \<Longrightarrow>
   \<exists>x. probe e (url # urls) = (Inl x, [Post url probe_payload 5])"
  by (auto simp: probe_faults_def split: sum.splits)

lemma check_native_up:
  "answers_200 e native_url \<Longrightarrow>
   check_llama_server e = (Inr (Some native_url), [Post native_url probe_payload 5])"
  by (simp add: check_llama_server_def endpoints_def probe_step_up del: probe.simps(2))

lemma check_openai_up:
  "is_down e native_url \<Longrightarrow> answers_200 e openai_url \<Longrightarrow>
   check_llama_server e =
     (Inr (Some openai_url), [Post native_url probe_payload 5, Post openai_url probe_payload 5])"
  by (simp add: check_llama_server_def endpoints_def probe_step_up probe_step_down
      del: probe.simps(2))

lemma check_both_down:
  "is_down e native_url \<Longrightarrow> is_down e openai_url \<Longrightarrow>
   check_llama_server e =
     (Inr None, [Post native_url probe_payload 5, Post openai_url probe_payload 5])"
  by (simp add: check_llama_server_def endpoints_def probe_step_down del: probe.simps(2))

lemma check_native_fault:
  "probe_faults e native_url \<Longrightarrow>
   check_llama_server e = (Inr None, [Post native_url probe_payload 5])"
  using probe_step_fault [of e native_url "[openai_url]"]
  by (auto simp: check_llama_server_def endpoints_def simp del: probe.simps(2))

lemma check_openai_fault:
  "is_down e native_url \<Longrightarrow> probe_faults e openai_url \<Longrightarrow>
   check_llama_server e =
     (Inr None, [Post native_url probe_payload 5, Post openai_url probe_payload 5])"
  using probe_step_fault [of e openai_url "[]"]
  by (auto simp: check_llama_server_def endpoints_def probe_step_down simp del: probe.simps(2))

lemma probe_trichotomy:
  "answers_200 e url \<or> is_down e url \<or> probe_faults e url"
  by (auto simp: answers_200_def is_down_def probe_faults_def split: sum.splits)

lemma check_no_fault:
  assumes "\<not> probe_faults e native_url" "\<not> probe_faults e openai_url"
  shows "fst (check_llama_server e) = Inr (first_answering_200 e endpoints)"
proof (cases "answers_200 e native_url")
  case True
  then show ?thesis
    by (simp add: check_native_up first_answering_200_def endpoints_def)
next
  case False
  with assms probe_trichotomy [of e native_url] have d: "is_down e native_url" by blast
  show ?thesis
  proof (cases "answers_200 e openai_url")
    case True
    with d False show ?thesis
      by (simp add: check_openai_up first_answering_200_def endpoints_def)
  next
    case n: False
    with assms probe_trichotomy [of e openai_url] have "is_down e openai_url" by blast
    with d False n show ?thesis
      by (simp add: check_both_down first_answering_200_def endpoints_def)
  qed
qed

lemma endswith_native: "endswith native_url ''/completion''"
  by (simp add: endswith_def native_url_def)

lemma endswith_openai: "\<not> endswith openai_url ''/completion''"
  by (simp add: endswith_def openai_url_def)

lemma urls_differ: "native_url \<noteq> openai_url"
  by (simp add: native_url_def openai_url_def)

lemma urls_nonempty: "native_url \<noteq> []" "openai_url \<noteq> []"
  by (simp_all add: native_url_def openai_url_def)

lemma check_result_cases:
  "fst (check_llama_server e) = Inr None \<or>
   fst (check_llama_server e) = Inr (Some native_url) \<or>
   fst (check_llama_server e) = Inr (Some openai_url)"
  using probe_trichotomy [of e native_url] probe_trichotomy [of e openai_url]
    check_native_up [of e] check_openai_up [of e] check_both_down [of e]
    check_native_fault [of e] check_openai_fault [of e]
  by (metis fst_conv)

lemma query_llama_bound:
  assumes "fst (check_llama_server e) = Inr (Some url)"
  shows "query_llama e q c s =
    (llama_handlers (llama_try e url (payload_of url (full_prompt_of q c s))),
     snd (check_llama_server e) @ [Post url (payload_of url (full_prompt_of q c s)) 30])"
proof -
  from assms check_result_cases [of e] urls_nonempty have "url \<noteq> []" by auto
  with assms show ?thesis
    by (cases "check_llama_server e") (simp add: query_llama_def Let_def)
qed


lemma server_native:
  "check_llama_server (server native_url a) =
     (Inr (Some native_url), [Post native_url probe_payload 5])"
  by (rule check_native_up) (simp add: answers_200_def server_def ok_response_def)

lemma server_openai:
  "check_llama_server (server openai_url a) =
     (Inr (Some openai_url), [Post native_url probe_payload 5, Post openai_url probe_payload 5])"
  by (rule check_openai_up)
    (simp_all add: answers_200_def is_down_def server_def ok_response_def urls_differ)



text \<open>
  C6, as stated, fails: when the probe of the native endpoint raises a fault that is not
  a RequestException, the outer handler returns \<open>None\<close> at once, though the
  OpenAI-compatible endpoint would answer 200 and is the first candidate that does.
\<close>

theorem check_llama_server_fault_counterexample:
  "fst (check_llama_server (backend (Inl (OtherException ''fault'')) (Inr (ok_response JNull))))
     = Inr None
   \<and> first_answering_200 (backend (Inl (OtherException ''fault'')) (Inr (ok_response JNull))) endpoints
     = Some openai_url"
  by (simp add: check_llama_server_def endpoints_def backend_def ok_response_def
      first_answering_200_def answers_200_def urls_differ urls_differ [symmetric])

text \<open>
  C6, amended. \<open>check_llama_server\<close> posts the trial request with timeout 5 to the native
  endpoint and, when that is down (a RequestException or a status other than 200), to the
  OpenAI-compatible endpoint; it returns the first of them answering 200, and \<open>None\<close>
  when both are down. A probe that raises any other fault ends discovery at once with
  \<open>None\<close>. So when no probe raises such a fault the result is the first candidate
  answering 200; and when the native endpoint is down and the other answers 200,
  \<open>query_llama\<close> posts the body with \<open>max_tokens\<close> to the OpenAI-compatible endpoint.
\<close>

theorem check_llama_server_discovery:
  "(answers_200 e native_url \<longrightarrow>
      check_llama_server e = (Inr (Some native_url), [Post native_url probe_payload 5]))
   \<and> (is_down e native_url \<and> answers_200 e openai_url \<longrightarrow>
      check_llama_server e =
        (Inr (Some openai_url),
         [Post native_url probe_payload 5, Post openai_url probe_payload 5])
      \<and> snd (query_llama e prompt context sources) =
        [Post native_url probe_payload 5, Post openai_url probe_payload 5,
         Post openai_url
           (JObj [(''prompt'', JStr (full_prompt_of prompt context sources)),
                  (''max_tokens'', JInt 500), (''temperature'', JFloat (7 / 10)),
                  (''top_p'', JFloat (95 / 100)), (''stop'', JArr [JStr [NL, NL]])]) 30])
   \<and> (is_down e native_url \<and> is_down e openai_url \<longrightarrow>
      check_llama_server e =
        (Inr None, [Post native_url probe_payload 5, Post openai_url probe_payload 5]))
   \<and> (probe_faults e native_url \<longrightarrow>
      check_llama_server e = (Inr None, [Post native_url probe_payload 5]))
   \<and> (is_down e native_url \<and> probe_faults e openai_url \<longrightarrow>
      check_llama_server e =
        (Inr None, [Post native_url probe_payload 5, Post openai_url probe_payload 5]))
   \<and> (\<not> probe_faults e native_url \<and> \<not> probe_faults e openai_url \<longrightarrow>
      fst (check_llama_server e) = Inr (first_answering_200 e endpoints))"
proof (intro conjI impI)
  assume "answers_200 e native_url"
  then show "check_llama_server e = (Inr (Some native_url), [Post native_url probe_payload 5])"
    by (rule check_native_up)
next
  assume a: "is_down e native_url \<and> answers_200 e openai_url"
  then show c: "check_llama_server e =
        (Inr (Some openai_url),
         [Post native_url probe_payload 5, Post openai_url probe_payload 5])"
    by (simp add: check_openai_up)
  then have "fst (check_llama_server e) = Inr (Some openai_url)" by simp
  from query_llama_bound [OF this, of prompt "context" sources] c
  show "snd (query_llama e prompt context sources) =
        [Post native_url probe_payload 5, Post openai_url probe_payload 5,
         Post openai_url
           (JObj [(''prompt'', JStr (full_prompt_of prompt context sources)),
                  (''max_tokens'', JInt 500), (''temperature'', JFloat (7 / 10)),
                  (''top_p'', JFloat (95 / 100)), (''stop'', JArr [JStr [NL, NL]])]) 30]"
    by (simp add: payload_of_def endswith_openai)
next
  assume "is_down e native_url \<and> is_down e openai_url"
  then show "check_llama_server e =
        (Inr None, [Post native_url probe_payload 5, Post openai_url probe_payload 5])"
    by (simp add: check_both_down)
next
  assume "probe_faults e native_url"
  then show "check_llama_server e = (Inr None, [Post native_url probe_payload 5])"
    by (rule check_native_fault)
next
  assume "is_down e native_url \<and> probe_faults e openai_url"
  then show "check_llama_server e =
        (Inr None, [Post native_url probe_payload 5, Post openai_url probe_payload 5])"
    by (simp add: check_openai_fault)
next
  assume "\<not> probe_faults e native_url \<and> \<not> probe_faults e openai_url"
  then show "fst (check_llama_server e) = Inr (first_answering_200 e endpoints)"
    by (simp add: check_no_fault)
qed
lemma backend_probe:
  "requests_post (backend a b) native_url probe_payload 5 = a"
  "requests_post (backend a b) openai_url probe_payload 5 = b"
  by (simp_all add: backend_def urls_differ [symmetric])

lemma probes_of_outcomes:
  "answers_200 (backend answering b) native_url"
  "answers_200 (backend a answering) openai_url"
  "is_down (backend refused b) native_url"
  "is_down (backend unavailable b) native_url"
  "is_down (backend a unavailable) openai_url"
  "probe_faults (backend faulting b) native_url"
  "probe_faults (backend a faulting) openai_url"
  "\<not> probe_faults (backend unavailable b) native_url"
  "\<not> probe_faults (backend a answering) openai_url"
  by (simp_all add: answers_200_def is_down_def probe_faults_def backend_probe
      answering_def refused_def unavailable_def service_unavailable_def faulting_def
      ok_response_def)

theorem check_llama_server_discovery_witness:
  "check_llama_server (backend answering refused)
     = (Inr (Some native_url), [Post native_url probe_payload 5])
   \<and> check_llama_server (backend refused answering)
     = (Inr (Some openai_url), [Post native_url probe_payload 5, Post openai_url probe_payload 5])
   \<and> snd (query_llama (backend refused answering) ''q'' ''c'' [''s''])
     = [Post native_url probe_payload 5, Post openai_url probe_payload 5,
        Post openai_url
          (JObj [(''prompt'', JStr (full_prompt_of ''q'' ''c'' [''s''])),
                 (''max_tokens'', JInt 500), (''temperature'', JFloat (7 / 10)),
                 (''top_p'', JFloat (95 / 100)), (''stop'', JArr [JStr [NL, NL]])]) 30]
   \<and> check_llama_server (backend refused unavailable)
     = (Inr None, [Post native_url probe_payload 5, Post openai_url probe_payload 5])
   \<and> check_llama_server (backend faulting answering)
     = (Inr None, [Post native_url probe_payload 5])
   \<and> check_llama_server (backend refused faulting)
     = (Inr None, [Post native_url probe_payload 5, Post openai_url probe_payload 5])
   \<and> fst (check_llama_server (backend unavailable answering))
     = Inr (first_answering_200 (backend unavailable answering) endpoints)"
proof -
  note d1 = check_llama_server_discovery [of "backend answering refused" "''q''" "''c''" "[''s'']"]
  note d2 = check_llama_server_discovery [of "backend refused answering" "''q''" "''c''" "[''s'']"]
  note d3 = check_llama_server_discovery [of "backend refused unavailable" "''q''" "''c''" "[''s'']"]
  note d4 = check_llama_server_discovery [of "backend faulting answering" "''q''" "''c''" "[''s'']"]
  note d5 = check_llama_server_discovery [of "backend refused faulting" "''q''" "''c''" "[''s'']"]
  note d6 = check_llama_server_discovery [of "backend unavailable answering" "''q''" "''c''" "[''s'']"]
  from d1 [THEN conjunct1] probes_of_outcomes(1)
  have r1: "check_llama_server (backend answering refused)
     = (Inr (Some native_url), [Post native_url probe_payload 5])"
    by blast
  from d2 [THEN conjunct2, THEN conjunct1] probes_of_outcomes(2,3)
  have r2: "check_llama_server (backend refused answering)
     = (Inr (Some openai_url), [Post native_url probe_payload 5, Post openai_url probe_payload 5])
   \<and> snd (query_llama (backend refused answering) ''q'' ''c'' [''s''])
     = [Post native_url probe_payload 5, Post openai_url probe_payload 5,
        Post openai_url
          (JObj [(''prompt'', JStr (full_prompt_of ''q'' ''c'' [''s''])),
                 (''max_tokens'', JInt 500), (''temperature'', JFloat (7 / 10)),
                 (''top_p'', JFloat (95 / 100)), (''stop'', JArr [JStr [NL, NL]])]) 30]"
    by blast
  from d3 [THEN conjunct2, THEN conjunct2, THEN conjunct1] probes_of_outcomes(3,5)
  have r3: "check_llama_server (backend refused unavailable)
     = (Inr None, [Post native_url probe_payload 5, Post openai_url probe_payload 5])"
    by blast
  from d4 [THEN conjunct2, THEN conjunct2, THEN conjunct2, THEN conjunct1] probes_of_outcomes(6)
  have r4: "check_llama_server (backend faulting answering)
     = (Inr None, [Post native_url probe_payload 5])"
    by blast
  from d5 [THEN conjunct2, THEN conjunct2, THEN conjunct2, THEN conjunct2, THEN conjunct1]
    probes_of_outcomes(3,7)
  have r5: "check_llama_server (backend refused faulting)
     = (Inr None, [Post native_url probe_payload 5, Post openai_url probe_payload 5])"
    by blast
  from d6 [THEN conjunct2, THEN conjunct2, THEN conjunct2, THEN conjunct2, THEN conjunct2]
    probes_of_outcomes(8,9)
  have r6: "fst (check_llama_server (backend unavailable answering))
     = Inr (first_answering_200 (backend unavailable answering) endpoints)"
    by blast
  from r1 r2 r3 r4 r5 r6 show ?thesis by blast
qed

subsection \<open>Generation request\<close>

text \<open>
  C7. The body \<open>query_llama\<close> posts (timeout 30) to the bound endpoint: to the native
  endpoint the token budget 500 is the field \<open>n_predict\<close>, to the OpenAI-compatible
  endpoint the field \<open>max_tokens\<close>; both carry temperature 0.7, top_p 0.95 and the stop
  sequence of two line feeds. Discovery binds one of these two endpoints or none.
\<close>

theorem query_llama_payload_shape:
  "(fst (check_llama_server e) = Inr (Some native_url) \<longrightarrow>
      snd (query_llama e prompt context sources) =
        snd (check_llama_server e) @
        [Post native_url
           (JObj [(''prompt'', JStr (full_prompt_of prompt context sources)),
                  (''n_predict'', JInt 500), (''temperature'', JFloat (7 / 10)),
                  (''top_p'', JFloat (95 / 100)), (''stop'', JArr [JStr [NL, NL]])]) 30])
   \<and> (fst (check_llama_server e) = Inr (Some openai_url) \<longrightarrow>
      snd (query_llama e prompt context sources) =
        snd (check_llama_server e) @
        [Post openai_url
           (JObj [(''prompt'', JStr (full_prompt_of prompt context sources)),
                  (''max_tokens'', JInt 500), (''temperature'', JFloat (7 / 10)),
                  (''top_p'', JFloat (95 / 100)), (''stop'', JArr [JStr [NL, NL]])]) 30])
   \<and> (fst (check_llama_server e) = Inr None
        \<or> fst (check_llama_server e) = Inr (Some native_url)
        \<or> fst (check_llama_server e) = Inr (Some openai_url))"
proof (intro conjI impI)
  assume "fst (check_llama_server e) = Inr (Some native_url)"
  from query_llama_bound [OF this, of prompt "context" sources]
  show "snd (query_llama e prompt context sources) =
        snd (check_llama_server e) @
        [Post native_url
           (JObj [(''prompt'', JStr (full_prompt_of prompt context sources)),
                  (''n_predict'', JInt 500), (''temperature'', JFloat (7 / 10)),
                  (''top_p'', JFloat (95 / 100)), (''stop'', JArr [JStr [NL, NL]])]) 30]"
    by (simp add: payload_of_def endswith_native)
next
  assume "fst (check_llama_server e) = Inr (Some openai_url)"
  from query_llama_bound [OF this, of prompt "context" sources]
  show "snd (query_llama e prompt context sources) =
        snd (check_llama_server e) @
        [Post openai_url
           (JObj [(''prompt'', JStr (full_prompt_of prompt context sources)),
                  (''max_tokens'', JInt 500), (''temperature'', JFloat (7 / 10)),
                  (''top_p'', JFloat (95 / 100)), (''stop'', JArr [JStr [NL, NL]])]) 30]"
    by (simp add: payload_of_def endswith_openai)
next
  show "fst (check_llama_server e) = Inr None
        \<or> fst (check_llama_server e) = Inr (Some native_url)
        \<or> fst (check_llama_server e) = Inr (Some openai_url)"
    by (rule check_result_cases)
qed

theorem query_llama_payload_shape_witness:
  "snd (query_llama (server native_url answering) ''q'' ''c'' [''s'']) =
        [Post native_url probe_payload 5,
         Post native_url
           (JObj [(''prompt'', JStr (full_prompt_of ''q'' ''c'' [''s''])),
                  (''n_predict'', JInt 500), (''temperature'', JFloat (7 / 10)),
                  (''top_p'', JFloat (95 / 100)), (''stop'', JArr [JStr [NL, NL]])]) 30]
   \<and> snd (query_llama (server openai_url answering) ''q'' ''c'' [''s'']) =
        [Post native_url probe_payload 5, Post openai_url probe_payload 5,
         Post openai_url
           (JObj [(''prompt'', JStr (full_prompt_of ''q'' ''c'' [''s''])),
                  (''max_tokens'', JInt 500), (''temperature'', JFloat (7 / 10)),
                  (''top_p'', JFloat (95 / 100)), (''stop'', JArr [JStr [NL, NL]])]) 30]"
proof -
  have h1: "fst (check_llama_server (server native_url answering)) = Inr (Some native_url)"
    by (simp add: server_native)
  have h2: "fst (check_llama_server (server openai_url answering)) = Inr (Some openai_url)"
    by (simp add: server_openai)
  from query_llama_payload_shape [of "server native_url answering" "''q''" "''c''" "[''s'']",
      THEN conjunct1, THEN mp, OF h1]
  have r1: "snd (query_llama (server native_url answering) ''q'' ''c'' [''s'']) =
        [Post native_url probe_payload 5,
         Post native_url
           (JObj [(''prompt'', JStr (full_prompt_of ''q'' ''c'' [''s''])),
                  (''n_predict'', JInt 500), (''temperature'', JFloat (7 / 10)),
                  (''top_p'', JFloat (95 / 100)), (''stop'', JArr [JStr [NL, NL]])]) 30]"
    by (simp add: server_native)
  from query_llama_payload_shape [of "server openai_url answering" "''q''" "''c''" "[''s'']",
      THEN conjunct2, THEN conjunct1, THEN mp, OF h2]
  have r2: "snd (query_llama (server openai_url answering) ''q'' ''c'' [''s'']) =
        [Post native_url probe_payload 5, Post openai_url probe_payload 5,
         Post openai_url
           (JObj [(''prompt'', JStr (full_prompt_of ''q'' ''c'' [''s''])),
                  (''max_tokens'', JInt 500), (''temperature'', JFloat (7 / 10)),
                  (''top_p'', JFloat (95 / 100)), (''stop'', JArr [JStr [NL, NL]])]) 30]"
    by (simp add: server_openai)
  from r1 r2 show ?thesis by blast
qed

text \<open>
  C8. Whenever discovery binds an endpoint, the request \<open>query_llama\<close> posts to it
  carries under \<open>prompt\<close> the string made of \<open>Context: \<close>, the context, a blank line,
  \<open>Question: \<close>, the question, a blank line, the fixed instruction, on the next line
  \<open>Sources: \<close> with the sources joined by comma and space, and on the last line
  \<open>Answer:\<close>.
\<close>

theorem query_llama_prompt:
  "fst (check_llama_server e) = Inr (Some url) \<Longrightarrow>
   \<exists>payload.
     snd (query_llama e prompt context sources) =
       snd (check_llama_server e) @ [Post url payload 30]
     \<and> dict_get payload ''prompt'' JNull =
         Inr (JStr (''Context: '' @ context @ [NL, NL] @ ''Question: '' @ prompt @ [NL, NL]
                    @ ''Based on the provided context, please answer the question:''
                    @ [NL] @ ''Sources: '' @ join '', '' sources @ [NL] @ ''Answer:''))"
proof -
  assume b: "fst (check_llama_server e) = Inr (Some url)"
  have p: "dict_get (payload_of url (full_prompt_of prompt context sources)) ''prompt'' JNull
      = Inr (JStr (full_prompt_of prompt context sources))"
    by (simp add: payload_of_def)
  have f: "full_prompt_of prompt context sources =
      ''Context: '' @ context @ [NL, NL] @ ''Question: '' @ prompt @ [NL, NL]
        @ ''Based on the provided context, please answer the question:''
        @ [NL] @ ''Sources: '' @ join '', '' sources @ [NL] @ ''Answer:''"
    by (simp add: full_prompt_of_def Let_def)
  from query_llama_bound [OF b, of prompt "context" sources] p f
  show ?thesis by simp
qed

theorem query_llama_prompt_witness:
  "\<exists>payload.
     snd (query_llama (server native_url answering) ''When did Apollo 11 land?''
            ''The Apollo 11 mission landed.'' [''space_facts'', ''cv.pdf'']) =
       [Post native_url probe_payload 5, Post native_url payload 30]
     \<and> dict_get payload ''prompt'' JNull =
         Inr (JStr (''Context: The Apollo 11 mission landed.'' @ [NL, NL]
                    @ ''Question: When did Apollo 11 land?'' @ [NL, NL]
                    @ ''Based on the provided context, please answer the question:''
                    @ [NL] @ ''Sources: space_facts, cv.pdf'' @ [NL] @ ''Answer:''))"
proof -
  have h: "fst (check_llama_server (server native_url answering)) = Inr (Some native_url)"
    by (simp add: server_native)
  from query_llama_prompt [OF h, of "''When did Apollo 11 land?''"
      "''The Apollo 11 mission landed.''" "[''space_facts'', ''cv.pdf'']"]
  show ?thesis by (simp add: server_native)
qed

subsection \<open>Generation result\<close>







subsection \<open>Pipeline\<close>













end
